theory Spec2Isabelle
  imports Complex_Main "HOL-Library.Multiset" "HOL-Library.Sublist" "HOL-Library.AList"
begin

section \<open>Data frames\<close>

text \<open>
  The three dashboards (\<^verbatim>\<open>app.py\<close>, \<^verbatim>\<open>app1.py\<close>, \<^verbatim>\<open>app2.py\<close>) hold the uploaded
  table in a pandas \<^verbatim>\<open>DataFrame\<close> and compute every view by calls on it. A data frame is
  modelled as pandas stores it: a row index (only its length matters here) and an ordered
  list of columns, each with a name, a dtype and its values. A cell is null (\<^verbatim>\<open>NaN\<close> or
  \<^verbatim>\<open>None\<close>), a number, a string or a boolean. Numbers are exact rationals: the rounding
  of 64-bit floating point is not modelled.
\<close>

datatype cell = Null | NumV rat | StrV string | BoolV bool

datatype dtype = Int64 | Float64 | BoolT | Object

record column =
  cname :: string
  cdtype :: dtype
  cvals :: "cell list"

record dataframe =
  index_len :: nat
  columns :: "column list"

datatype py_error = KeyError | TypeError | IndexError | ValueError

text \<open>\<^verbatim>\<open>df.columns\<close> and \<^verbatim>\<open>df.shape\<close>.\<close>

definition column_names :: "dataframe \<Rightarrow> string list" where
  "column_names df = map cname (columns df)"

definition shape :: "dataframe \<Rightarrow> nat \<times> nat" where
  "shape df = (index_len df, length (columns df))"

text \<open>
  Every column of a data frame has one value per index entry, and the loader makes column
  names unique (\<^verbatim>\<open>read_csv\<close> renames a repeated header \<^verbatim>\<open>A\<close> to \<^verbatim>\<open>A.1\<close>). The
  row count of a dataset is the common length of its columns, so a dataset without
  columns has no rows.
\<close>

definition frame_ok :: "dataframe \<Rightarrow> bool" where
  "frame_ok df \<longleftrightarrow>
     list_all (\<lambda>c. length (cvals c) = index_len df) (columns df) \<and>
     distinct (column_names df) \<and>
     (columns df = [] \<longrightarrow> index_len df = 0)"

text \<open>\<^verbatim>\<open>df.empty\<close>: no rows or no columns.\<close>

definition empty_frame :: "dataframe \<Rightarrow> bool" where
  "empty_frame df \<longleftrightarrow> index_len df = 0 \<or> columns df = []"

text \<open>The row at position \<open>i\<close> (\<^verbatim>\<open>df.iloc[i]\<close>), and all rows top to bottom.\<close>

definition iloc_row :: "dataframe \<Rightarrow> nat \<Rightarrow> cell list" where
  "iloc_row df i = map (\<lambda>c. cvals c ! i) (columns df)"

definition frame_rows :: "dataframe \<Rightarrow> cell list list" where
  "frame_rows df = map (iloc_row df) [0..<index_len df]"

text \<open>
  A Python \<^verbatim>\<open>dict\<close> keeps its keys in insertion order and a repeated key overwrites the
  value in place: an association list built with \<^const>\<open>AList.update\<close>.
\<close>

type_synonym pyrecord = "(string \<times> cell) list"

definition dict_of :: "(string \<times> cell) list \<Rightarrow> pyrecord" where
  "dict_of kvs = foldl (\<lambda>d (k, v). AList.update k v d) [] kvs"

text \<open>\<^verbatim>\<open>df.to_dict("records")\<close>: one dict per row, keyed by the column names.\<close>

definition to_dict_records :: "dataframe \<Rightarrow> pyrecord list" where
  "to_dict_records df = map (\<lambda>r. dict_of (zip (column_names df) r)) (frame_rows df)"

text \<open>
  Boolean indexing \<^verbatim>\<open>df[mask]\<close>: the positions where the mask is true
  (\<^verbatim>\<open>mask.nonzero()\<close>), taken from every column in order.
\<close>

definition nonzero :: "bool list \<Rightarrow> nat list" where
  "nonzero bmask = filter (\<lambda>i. bmask ! i) [0..<length bmask]"

definition boolean_index :: "dataframe \<Rightarrow> bool list \<Rightarrow> dataframe" where
  "boolean_index df bmask =
     \<lparr>index_len = length (nonzero bmask),
      columns = map (\<lambda>c. c\<lparr>cvals := map (\<lambda>i. cvals c ! i) (nonzero bmask)\<rparr>) (columns df)\<rparr>"

text \<open>Summing a boolean series counts its true entries (\<^verbatim>\<open>True\<close> is 1).\<close>

definition sum_bools :: "bool list \<Rightarrow> nat" where
  "sum_bools bs = sum_list (map (\<lambda>b. if b then 1 else 0) bs)"

section \<open>Duplicate records\<close>

text \<open>
  \<^verbatim>\<open>df.duplicated()\<close> with its defaults (all columns, \<^verbatim>\<open>keep="first"\<close>) walks the rows
  top to bottom with a table of the rows met so far: a row already in the table is marked
  \<^verbatim>\<open>True\<close>, any other row is entered and marked \<^verbatim>\<open>False\<close>. Nulls in the same position
  compare equal. On an empty frame the method returns an empty series at once.
\<close>

fun duplicated_seen :: "'a list \<Rightarrow> 'a list \<Rightarrow> bool list" where
  "duplicated_seen seen [] = []"
| "duplicated_seen seen (r # rs) =
     (if r \<in> set seen then True # duplicated_seen seen rs
      else False # duplicated_seen (r # seen) rs)"

definition duplicated :: "dataframe \<Rightarrow> bool list" where
  "duplicated df = (if empty_frame df then [] else duplicated_seen [] (frame_rows df))"

text \<open>
  The \<^verbatim>\<open>duplicates\<close> branch of \<^verbatim>\<open>render_tab\<close>, the same in the three files: the heading
  shows \<^verbatim>\<open>duplicate_count\<close>; the table of \<^verbatim>\<open>df[df.duplicated()]\<close> is built only when the
  count is positive, otherwise the text "No duplicate records found." is shown.
\<close>

datatype duplicate_panel = DuplicatePanel nat "pyrecord list option"

definition duplicates_tab :: "dataframe \<Rightarrow> duplicate_panel" where
  "duplicates_tab df =
     (let duplicate_count = sum_bools (duplicated df)
      in DuplicatePanel duplicate_count
           (if duplicate_count > 0
            then Some (to_dict_records (boolean_index df (duplicated df)))
            else None))"

fun panel_count :: "duplicate_panel \<Rightarrow> nat" where
  "panel_count (DuplicatePanel n t) = n"

fun panel_rows :: "duplicate_panel \<Rightarrow> pyrecord list" where
  "panel_rows (DuplicatePanel n None) = []"
| "panel_rows (DuplicatePanel n (Some rs)) = rs"

section \<open>Missing values\<close>

text \<open>
  The \<^verbatim>\<open>missing\<close> branch of \<^verbatim>\<open>render_tab\<close>: \<^verbatim>\<open>df.isnull().sum().reset_index()\<close> gives one
  row per column of the frame, in column order, with the column name and the number of
  nulls in it; the two fields are then renamed "Feature" and "Missing Values".
\<close>

definition isnull :: "cell \<Rightarrow> bool" where
  "isnull v \<longleftrightarrow> v = Null"

definition missing_data :: "dataframe \<Rightarrow> (string \<times> nat) list" where
  "missing_data df = map (\<lambda>c. (cname c, sum_bools (map isnull (cvals c)))) (columns df)"

text \<open>
  The number of non-null cells of the whole frame (\<^verbatim>\<open>df.count().sum()\<close>), the quantity
  the specification calls \<open>total_non_null_values\<close>.
\<close>

definition total_non_null_values :: "dataframe \<Rightarrow> nat" where
  "total_non_null_values df =
     sum_list (map (\<lambda>c. length (filter (\<lambda>v. \<not> isnull v) (cvals c))) (columns df))"

section \<open>Column classification\<close>

text \<open>
  \<^verbatim>\<open>df.select_dtypes(include=["number"])\<close> keeps the columns whose dtype is a numeric one
  (here \<open>Int64\<close> and \<open>Float64\<close>; the boolean dtype is not a number for pandas), in
  their order in the frame; \<^verbatim>\<open>exclude=["number"]\<close> keeps the others.
\<close>

definition is_number_dtype :: "dtype \<Rightarrow> bool" where
  "is_number_dtype t \<longleftrightarrow> t = Int64 \<or> t = Float64"

definition select_dtypes_include_number :: "dataframe \<Rightarrow> dataframe" where
  "select_dtypes_include_number df =
     df\<lparr>columns := filter (\<lambda>c. is_number_dtype (cdtype c)) (columns df)\<rparr>"

definition select_dtypes_exclude_number :: "dataframe \<Rightarrow> dataframe" where
  "select_dtypes_exclude_number df =
     df\<lparr>columns := filter (\<lambda>c. \<not> is_number_dtype (cdtype c)) (columns df)\<rparr>"

definition num_cols :: "dataframe \<Rightarrow> string list" where
  "num_cols df = column_names (select_dtypes_include_number df)"

definition cat_cols :: "dataframe \<Rightarrow> string list" where
  "cat_cols df = column_names (select_dtypes_exclude_number df)"

text \<open>
  The dtype of a column is fixed when the frame is built. For a frame that \<^verbatim>\<open>read_csv\<close>
  returns, pandas infers it from the parsed cells: a column with no rows is \<open>Object\<close>; a
  column of integers without a null is \<open>Int64\<close>; a column of numbers and nulls (also of
  nulls only) is \<open>Float64\<close>; a column of booleans is \<open>BoolT\<close>; a column holding anything
  else is \<open>Object\<close>. The predicate below says that a column's dtype agrees with this
  inference.
\<close>

definition is_num_cell :: "cell \<Rightarrow> bool" where
  "is_num_cell v \<longleftrightarrow> (case v of NumV q \<Rightarrow> True | _ \<Rightarrow> False)"

definition is_integral_cell :: "cell \<Rightarrow> bool" where
  "is_integral_cell v \<longleftrightarrow> (case v of NumV q \<Rightarrow> q = of_int \<lfloor>q\<rfloor> | _ \<Rightarrow> False)"

definition is_bool_cell :: "cell \<Rightarrow> bool" where
  "is_bool_cell v \<longleftrightarrow> (case v of BoolV b \<Rightarrow> True | _ \<Rightarrow> False)"

fun read_csv_dtype :: "dtype \<Rightarrow> cell list \<Rightarrow> bool" where
  "read_csv_dtype Int64 vs \<longleftrightarrow> vs \<noteq> [] \<and> list_all is_integral_cell vs"
| "read_csv_dtype Float64 vs \<longleftrightarrow> vs \<noteq> [] \<and> list_all (\<lambda>v. is_num_cell v \<or> isnull v) vs"
| "read_csv_dtype BoolT vs \<longleftrightarrow> vs \<noteq> [] \<and> list_all is_bool_cell vs"
| "read_csv_dtype Object vs \<longleftrightarrow> vs = [] \<or> list_ex (\<lambda>v. \<not> is_num_cell v \<and> \<not> isnull v) vs"

definition parsed_frame :: "dataframe \<Rightarrow> bool" where
  "parsed_frame df \<longleftrightarrow>
     frame_ok df \<and> list_all (\<lambda>c. read_csv_dtype (cdtype c) (cvals c)) (columns df)"

section \<open>The stored records of app.py\<close>

text \<open>
  \<^verbatim>\<open>app.py\<close> parses the upload once, in \<^verbatim>\<open>process_file\<close>, and keeps
  \<^verbatim>\<open>df.to_dict("records")\<close> in a \<^verbatim>\<open>dcc.Store\<close>; every later callback rebuilds the frame
  with \<^verbatim>\<open>pd.DataFrame(data)\<close>. Decoding the upload (splitting the data URL, base64, UTF-8,
  \<^verbatim>\<open>read_csv\<close>) is the loader: it is the parameter \<open>parse_contents\<close>, which returns a
  frame or raises.

  \<^verbatim>\<open>pd.DataFrame\<close> on a list of dicts takes as columns the keys of the dicts in order of
  first appearance, fills a missing key with null, and infers each dtype from the values.
\<close>

fun add_keys :: "string list \<Rightarrow> string list \<Rightarrow> string list" where
  "add_keys seen [] = seen"
| "add_keys seen (k # ks) =
     (if k \<in> set seen then add_keys seen ks else add_keys (seen @ [k]) ks)"

definition record_keys :: "pyrecord list \<Rightarrow> string list" where
  "record_keys data = foldl add_keys [] (map (map fst) data)"

definition dict_get :: "pyrecord \<Rightarrow> string \<Rightarrow> cell" where
  "dict_get d k = (case map_of d k of None \<Rightarrow> Null | Some v \<Rightarrow> v)"

definition infer_objects :: "cell list \<Rightarrow> dtype" where
  "infer_objects vs =
     (if vs \<noteq> [] \<and> list_all is_integral_cell vs then Int64
      else if list_ex is_num_cell vs \<and> list_all (\<lambda>v. is_num_cell v \<or> isnull v) vs then Float64
      else if vs \<noteq> [] \<and> list_all is_bool_cell vs then BoolT
      else Object)"

definition DataFrame :: "pyrecord list \<Rightarrow> dataframe" where
  "DataFrame data =
     \<lparr>index_len = length data,
      columns = map (\<lambda>k. let vs = map (\<lambda>d. dict_get d k) data
                          in \<lparr>cname = k, cdtype = infer_objects vs, cvals = vs\<rparr>)
                    (record_keys data)\<rparr>"

definition process_file ::
  "(string \<Rightarrow> py_error + dataframe) \<Rightarrow> string option \<Rightarrow> py_error + pyrecord list option" where
  "process_file parse_contents contents =
     (case contents of
        None \<Rightarrow> Inr None
      | Some c \<Rightarrow>
          if c = [] then Inr None
          else (case parse_contents c of
                  Inl e \<Rightarrow> Inl e
                | Inr df \<Rightarrow> Inr (Some (to_dict_records df))))"


section \<open>Quartiles and outliers\<close>

text \<open>
  \<^verbatim>\<open>Series.quantile(q)\<close> drops the nulls and hands the rest to numpy's percentile with the
  default method \<^verbatim>\<open>linear\<close>: the values are sorted, the virtual index is \<open>q * (n - 1)\<close>,
  the entries at its floor and at the next position (clipped to the last one) are
  combined by \<^verbatim>\<open>_lerp\<close>. A series without a non-null value gives \<^verbatim>\<open>NaN\<close>; values that
  are not numbers make the arithmetic raise \<^verbatim>\<open>TypeError\<close>. A Python float is \<open>None\<close> for
  \<^verbatim>\<open>NaN\<close> and \<open>Some\<close> of a rational otherwise.
\<close>

type_synonym pyfloat = "rat option"

definition lerp :: "rat \<Rightarrow> rat \<Rightarrow> rat \<Rightarrow> rat" where
  "lerp a b t = (if t \<ge> 1 / 2 then b - (b - a) * (1 - t) else a + (b - a) * t)"

definition percentile_linear :: "rat \<Rightarrow> rat list \<Rightarrow> rat" where
  "percentile_linear q vs =
     (let arr = sort vs;
          n = length arr;
          virtual_index = q * of_nat (n - 1);
          previous_index = nat \<lfloor>virtual_index\<rfloor>;
          next_index = min (previous_index + 1) (n - 1);
          gamma = virtual_index - of_nat previous_index
      in lerp (arr ! previous_index) (arr ! next_index) gamma)"

fun as_number :: "cell \<Rightarrow> rat option" where
  "as_number (NumV q) = Some q"
| "as_number v = None"

definition numbers :: "cell list \<Rightarrow> rat list" where
  "numbers vs = List.map_filter as_number vs"

definition quantile :: "cell list \<Rightarrow> rat \<Rightarrow> py_error + pyfloat" where
  "quantile vs q =
     (let present = filter (\<lambda>v. \<not> isnull v) vs
      in if present = [] then Inr None
         else if list_all is_num_cell present then Inr (Some (percentile_linear q (numbers present)))
         else Inl TypeError)"

text \<open>Float arithmetic: \<^verbatim>\<open>NaN\<close> in, \<^verbatim>\<open>NaN\<close> out.\<close>

fun fsub :: "pyfloat \<Rightarrow> pyfloat \<Rightarrow> pyfloat" where
  "fsub (Some a) (Some b) = Some (a - b)"
| "fsub x y = None"

fun fadd :: "pyfloat \<Rightarrow> pyfloat \<Rightarrow> pyfloat" where
  "fadd (Some a) (Some b) = Some (a + b)"
| "fadd x y = None"

fun fmul :: "pyfloat \<Rightarrow> pyfloat \<Rightarrow> pyfloat" where
  "fmul (Some a) (Some b) = Some (a * b)"
| "fmul x y = None"

text \<open>
  A series compared with a float, element by element: a null cell and a \<^verbatim>\<open>NaN\<close> bound
  compare false, a number (a boolean counts as 0 or 1) is compared by value, and a string
  against a number raises \<^verbatim>\<open>TypeError\<close>.
\<close>

definition is_str_cell :: "cell \<Rightarrow> bool" where
  "is_str_cell v \<longleftrightarrow> (case v of StrV s \<Rightarrow> True | _ \<Rightarrow> False)"

fun cell_cmp :: "(rat \<Rightarrow> rat \<Rightarrow> bool) \<Rightarrow> rat \<Rightarrow> cell \<Rightarrow> bool" where
  "cell_cmp rel b (NumV x) = rel x b"
| "cell_cmp rel b (BoolV t) = rel (if t then 1 else 0) b"
| "cell_cmp rel b v = False"

definition series_cmp ::
  "(rat \<Rightarrow> rat \<Rightarrow> bool) \<Rightarrow> cell list \<Rightarrow> pyfloat \<Rightarrow> py_error + bool list" where
  "series_cmp rel vs bound =
     (case bound of
        None \<Rightarrow> Inr (map (\<lambda>v. False) vs)
      | Some b \<Rightarrow>
          if list_ex is_str_cell vs then Inl TypeError
          else Inr (map (cell_cmp rel b) vs))"

text \<open>\<^verbatim>\<open>df[column]\<close> with a column label: the column of that name, or \<^verbatim>\<open>KeyError\<close>.\<close>

definition get_column :: "dataframe \<Rightarrow> string \<Rightarrow> py_error + column" where
  "get_column df k =
     (case find (\<lambda>c. cname c = k) (columns df) of
        None \<Rightarrow> Inl KeyError
      | Some c \<Rightarrow> Inr c)"

text \<open>
  The outlier detection of \<^verbatim>\<open>update_boxplot\<close> in \<^verbatim>\<open>app2.py\<close>; the fields of the record are
  the local variables of the function.
\<close>

record outlier_report =
  Q1 :: pyfloat
  Q3 :: pyfloat
  IQR :: pyfloat
  lower_bound :: pyfloat
  upper_bound :: pyfloat
  outliers :: dataframe

definition iqr_outliers :: "dataframe \<Rightarrow> string \<Rightarrow> py_error + outlier_report" where
  "iqr_outliers df col =
     (case get_column df col of
        Inl e \<Rightarrow> Inl e
      | Inr c \<Rightarrow>
     (case quantile (cvals c) (1 / 4) of
        Inl e \<Rightarrow> Inl e
      | Inr q1 \<Rightarrow>
     (case quantile (cvals c) (3 / 4) of
        Inl e \<Rightarrow> Inl e
      | Inr q3 \<Rightarrow>
     (let iqr = fsub q3 q1;
          lower = fsub q1 (fmul (Some (3 / 2)) iqr);
          upper = fadd q3 (fmul (Some (3 / 2)) iqr)
      in
     (case series_cmp (<) (cvals c) lower of
        Inl e \<Rightarrow> Inl e
      | Inr is_below \<Rightarrow>
     (case series_cmp (>) (cvals c) upper of
        Inl e \<Rightarrow> Inl e
      | Inr is_above \<Rightarrow>
          Inr \<lparr>Q1 = q1, Q3 = q3, IQR = iqr, lower_bound = lower, upper_bound = upper,
               outliers = boolean_index df (map2 (\<or>) is_below is_above)\<rparr>))))))"

text \<open>
  A figure is empty (\<^verbatim>\<open>{}\<close>, or a box plot without data) or a box plot of one column:
  its title column, the plotted values and, in \<^verbatim>\<open>app2.py\<close>, the values of the added
  scatter trace of the outliers.
\<close>

datatype figure = EmptyFigure | BoxFigure string "cell list" "cell list option"

definition update_boxplot_app2 ::
  "(string \<Rightarrow> py_error + dataframe) \<Rightarrow> string option \<Rightarrow> string option \<Rightarrow>
   py_error + figure \<times> bool" where
  "update_boxplot_app2 parse_contents column contents =
     (case contents of
        None \<Rightarrow> Inr (EmptyFigure, False)
      | Some c \<Rightarrow>
     (case column of
        None \<Rightarrow> Inr (EmptyFigure, False)
      | Some col \<Rightarrow>
     (case parse_contents c of
        Inl e \<Rightarrow> Inl e
      | Inr df \<Rightarrow>
     (case iqr_outliers df col of
        Inl e \<Rightarrow> Inl e
      | Inr r \<Rightarrow>
     (case get_column df col of
        Inl e \<Rightarrow> Inl ValueError
      | Inr y \<Rightarrow>
     (case get_column (outliers r) col of
        Inl e \<Rightarrow> Inl ValueError
      | Inr out \<Rightarrow> Inr (BoxFigure col (cvals y) (Some (cvals out)), True)))))))"

text \<open>
  \<^verbatim>\<open>update_boxplot\<close> of \<^verbatim>\<open>app1.py\<close> and of \<^verbatim>\<open>app.py\<close> only draw \<^verbatim>\<open>px.box(df, y=column)\<close>,
  which raises \<^verbatim>\<open>ValueError\<close> for a name that is not a column of the frame.
\<close>

definition px_box :: "dataframe \<Rightarrow> string \<Rightarrow> py_error + figure" where
  "px_box df col =
     (case get_column df col of
        Inl e \<Rightarrow> Inl ValueError
      | Inr y \<Rightarrow> Inr (BoxFigure col (cvals y) None))"

definition update_boxplot_app1 ::
  "(string \<Rightarrow> py_error + dataframe) \<Rightarrow> string option \<Rightarrow> string option \<Rightarrow> py_error + figure" where
  "update_boxplot_app1 parse_contents column contents =
     (case contents of
        None \<Rightarrow> Inr EmptyFigure
      | Some c \<Rightarrow>
     (case column of
        None \<Rightarrow> Inr EmptyFigure
      | Some col \<Rightarrow>
     (case parse_contents c of
        Inl e \<Rightarrow> Inl e
      | Inr df \<Rightarrow> px_box df col)))"

definition update_boxplot_app ::
  "string option \<Rightarrow> pyrecord list option \<Rightarrow> py_error + figure" where
  "update_boxplot_app column data =
     (case data of
        None \<Rightarrow> Inr EmptyFigure
      | Some d \<Rightarrow>
     (case column of
        None \<Rightarrow> Inr EmptyFigure
      | Some col \<Rightarrow> px_box (DataFrame d) col))"

section \<open>The tab views\<close>

text \<open>
  What \<^verbatim>\<open>render_tab\<close> returns for the content area. The correlation matrix itself is
  computed by \<^verbatim>\<open>DataFrame.corr\<close> in floating point; it is the parameter \<open>corr\<close>, and the
  heat map carries whatever it returns.
\<close>

datatype 'm content =
    UploadPrompt
  | OverviewPanel "pyrecord list" "string list" "nat \<times> nat" "(nat \<times> nat) option"
  | NoNumericWarning
  | Heatmap 'm
  | BoxplotPanel "string list" "string option"
  | BoxplotHeading
  | MissingBar "(string \<times> nat) list"
  | DuplicateView duplicate_panel
  | TabNotFound

text \<open>\<^verbatim>\<open>df.head()\<close>: the first five rows.\<close>

definition head :: "dataframe \<Rightarrow> dataframe" where
  "head df =
     \<lparr>index_len = min 5 (index_len df),
      columns = map (\<lambda>c. c\<lparr>cvals := take 5 (cvals c)\<rparr>) (columns df)\<rparr>"

text \<open>\<^verbatim>\<open>df[names]\<close> with a list of labels: those columns, in the order of the list.\<close>

definition getitem_list :: "dataframe \<Rightarrow> string list \<Rightarrow> py_error + dataframe" where
  "getitem_list df ks =
     (if list_all (\<lambda>k. k \<in> set (column_names df)) ks
      then Inr (df\<lparr>columns := concat (map (\<lambda>k. filter (\<lambda>c. cname c = k) (columns df)) ks)\<rparr>)
      else Inl KeyError)"

definition correlation_heatmap :: "(dataframe \<Rightarrow> 'm) \<Rightarrow> dataframe \<Rightarrow> py_error + 'm content" where
  "correlation_heatmap corr df =
     (case getitem_list df (num_cols df) of
        Inl e \<Rightarrow> Inl e
      | Inr numeric \<Rightarrow> Inr (Heatmap (corr numeric)))"

text \<open>
  \<^verbatim>\<open>render_tab\<close> of \<^verbatim>\<open>app.py\<close>, on the stored records. The correlation branch first tests
  \<^verbatim>\<open>len(num_cols) == 0\<close>; the boxplot branch preselects \<^verbatim>\<open>num_cols[0]\<close>, which raises
  \<^verbatim>\<open>IndexError\<close> on an empty list.
\<close>

definition render_tab_app ::
  "(dataframe \<Rightarrow> 'm) \<Rightarrow> string \<Rightarrow> pyrecord list option \<Rightarrow> py_error + 'm content" where
  "render_tab_app corr selected_tab data =
     (case data of
        None \<Rightarrow> Inr UploadPrompt
      | Some d \<Rightarrow>
          let df = DataFrame d in
          if selected_tab = ''overview'' then
            Inr (OverviewPanel (to_dict_records (head df)) (column_names df) (shape df)
                   (Some (length (num_cols df), length (cat_cols df))))
          else if selected_tab = ''correlation'' then
            (if length (num_cols df) = 0 then Inr NoNumericWarning
             else correlation_heatmap corr df)
          else if selected_tab = ''boxplots'' then
            (case num_cols df of
               [] \<Rightarrow> Inl IndexError
             | v # vs \<Rightarrow> Inr (BoxplotPanel (num_cols df) (Some v)))
          else if selected_tab = ''missing'' then Inr (MissingBar (missing_data df))
          else if selected_tab = ''duplicates'' then Inr (DuplicateView (duplicates_tab df))
          else Inr TabNotFound)"

text \<open>
  \<^verbatim>\<open>render_tab\<close> of \<^verbatim>\<open>app1.py\<close> parses the upload on every call and also returns the
  options of the column filter (every column). Its correlation branch has no test for an
  empty \<^verbatim>\<open>num_cols\<close>; its boxplot dropdown offers every column and preselects none.
\<close>

definition render_tab_app1 ::
  "(string \<Rightarrow> py_error + dataframe) \<Rightarrow> (dataframe \<Rightarrow> 'm) \<Rightarrow> string \<Rightarrow> string option \<Rightarrow>
   py_error + 'm content \<times> string list" where
  "render_tab_app1 parse_contents corr selected_tab contents =
     (case contents of
        None \<Rightarrow> Inr (UploadPrompt, [])
      | Some c \<Rightarrow>
     (case parse_contents c of
        Inl e \<Rightarrow> Inl e
      | Inr df \<Rightarrow>
          let column_options = column_names df in
          if selected_tab = ''overview'' then
            Inr (OverviewPanel (to_dict_records (head df)) (column_names df) (shape df)
                   (Some (length (num_cols df), length (cat_cols df))), column_options)
          else if selected_tab = ''correlation'' then
            (case correlation_heatmap corr df of
               Inl e \<Rightarrow> Inl e
             | Inr view \<Rightarrow> Inr (view, column_options))
          else if selected_tab = ''boxplots'' then
            Inr (BoxplotPanel column_options None, column_options)
          else if selected_tab = ''missing'' then
            Inr (MissingBar (missing_data df), column_options)
          else if selected_tab = ''duplicates'' then
            Inr (DuplicateView (duplicates_tab df), column_options)
          else Inr (TabNotFound, column_options)))"

text \<open>
  \<^verbatim>\<open>render_tab\<close> of \<^verbatim>\<open>app2.py\<close> returns the content, the options of the boxplot dropdown
  (the numeric columns, on the boxplot tab only) and whether the dropdown is shown.
\<close>

definition render_tab_app2 ::
  "(string \<Rightarrow> py_error + dataframe) \<Rightarrow> (dataframe \<Rightarrow> 'm) \<Rightarrow> string \<Rightarrow> string option \<Rightarrow>
   py_error + 'm content \<times> string list \<times> bool" where
  "render_tab_app2 parse_contents corr selected_tab contents =
     (case contents of
        None \<Rightarrow> Inr (UploadPrompt, [], False)
      | Some c \<Rightarrow>
     (case parse_contents c of
        Inl e \<Rightarrow> Inl e
      | Inr df \<Rightarrow>
          let column_options = num_cols df in
          if selected_tab = ''overview'' then
            Inr (OverviewPanel (to_dict_records (head df)) (column_names df) (shape df) None,
                 [], False)
          else if selected_tab = ''correlation'' then
            (case correlation_heatmap corr df of
               Inl e \<Rightarrow> Inl e
             | Inr view \<Rightarrow> Inr (view, [], False))
          else if selected_tab = ''boxplots'' then
            Inr (BoxplotHeading, column_options, True)
          else if selected_tab = ''missing'' then
            Inr (MissingBar (missing_data df), [], False)
          else if selected_tab = ''duplicates'' then
            Inr (DuplicateView (duplicates_tab df), [], False)
          else Inr (TabNotFound, [], False)))"

section \<open>The specification's reading of the reports\<close>

text \<open>
  The duplicate rule in the specification's words: row \<open>i\<close> is a duplicate when an
  earlier row has the same value, nulls included, in every column.
\<close>

definition spec_is_duplicate :: "dataframe \<Rightarrow> nat \<Rightarrow> bool" where
  "spec_is_duplicate df i \<longleftrightarrow>
     list_ex (\<lambda>j. list_all (\<lambda>c. cvals c ! j = cvals c ! i) (columns df)) [0..<i]"

text \<open>The missing count of a column in the specification's words: its null entries.\<close>

definition spec_missing_count :: "column \<Rightarrow> nat" where
  "spec_missing_count c = length (filter (\<lambda>v. v = Null) (cvals c))"

text \<open>
  The classification rule in the specification's words: a column is numeric when every
  non-null value in it is a number.
\<close>

definition spec_is_numeric :: "column \<Rightarrow> bool" where
  "spec_is_numeric c \<longleftrightarrow> list_all (\<lambda>v. isnull v \<or> is_num_cell v) (cvals c)"

text \<open>
  The percentile rule in the specification's words: for the sorted list of \<open>n\<close> values
  the \<open>p\<close>-th percentile sits at index \<open>p * (n - 1)\<close>, interpolated linearly between
  the two entries that bracket that index. The values of a column are its non-null
  entries.
\<close>

definition spec_percentile :: "rat \<Rightarrow> rat list \<Rightarrow> rat" where
  "spec_percentile p vs =
     (let s = sort vs;
          h = p * of_nat (length s - 1);
          lo = nat \<lfloor>h\<rfloor>;
          hi = nat \<lceil>h\<rceil>
      in s ! lo + (h - of_nat lo) * (s ! hi - s ! lo))"

definition spec_values :: "column \<Rightarrow> rat list" where
  "spec_values c = numbers (filter (\<lambda>v. v \<noteq> Null) (cvals c))"


section \<open>The scenario of the specification\<close>

text \<open>
  The table with integer columns \<open>A\<close> and \<open>B\<close> and the rows (1,10), (2,20), (1,10),
  (100,5), and a table with the same header and no row.
\<close>

definition scenario :: dataframe where
  "scenario =
     \<lparr>index_len = 4,
      columns =
        [\<lparr>cname = ''A'', cdtype = Int64, cvals = [NumV 1, NumV 2, NumV 1, NumV 100]\<rparr>,
         \<lparr>cname = ''B'', cdtype = Int64, cvals = [NumV 10, NumV 20, NumV 10, NumV 5]\<rparr>]\<rparr>"

definition header_only :: dataframe where
  "header_only =
     \<lparr>index_len = 0,
      columns =
        [\<lparr>cname = ''A'', cdtype = Object, cvals = []\<rparr>,
         \<lparr>cname = ''B'', cdtype = Object, cvals = []\<rparr>]\<rparr>"

text \<open>A table with one text column.\<close>

definition text_frame :: dataframe where
  "text_frame =
     \<lparr>index_len = 2,
      columns = [\<lparr>cname = ''name'', cdtype = Object, cvals = [StrV ''x'', StrV ''y'']\<rparr>]\<rparr>"

text \<open>A loader that decodes every upload to the given frame.\<close>

definition upload_of :: "dataframe \<Rightarrow> string \<Rightarrow> py_error + dataframe" where
  "upload_of df c = Inr df"

text \<open>A table with one column \<open>C\<close> of four rows, one of them null.\<close>

definition one_null_column :: dataframe where
  "one_null_column =
     \<lparr>index_len = 4,
      columns = [\<lparr>cname = ''C'', cdtype = Float64, cvals = [NumV 1, Null, NumV 3, NumV 4]\<rparr>]\<rparr>"

section \<open>Properties of the duplicate report\<close>

lemma duplicated_seen_length: "length (duplicated_seen seen rs) = length rs"
  by (induction rs arbitrary: seen) auto

lemma duplicated_seen_nth:
  "i < length rs \<Longrightarrow>
   duplicated_seen seen rs ! i \<longleftrightarrow> rs ! i \<in> set seen \<or> (\<exists>j<i. rs ! j = rs ! i)"
proof (induction rs arbitrary: seen i)
  case Nil
  then show ?case by simp
next
  case (Cons r rs)
  show ?case
  proof (cases i)
    case 0
    then show ?thesis by simp
  next
    case (Suc k)
    with Cons.prems have k: "k < length rs" by simp
    have ex: "(\<exists>j<Suc k. (r # rs) ! j = rs ! k) \<longleftrightarrow> r = rs ! k \<or> (\<exists>j<k. rs ! j = rs ! k)"
      by (auto simp: less_Suc_eq_0_disj)
    show ?thesis
      using Cons.IH[OF k, of seen] Cons.IH[OF k, of "r # seen"] ex Suc
      by (auto simp del: ex_simps)
  qed
qed

lemma duplicated_scan:
  "columns df = [] \<longrightarrow> index_len df = 0 \<Longrightarrow>
   duplicated df = duplicated_seen [] (frame_rows df)"
  by (auto simp: duplicated_def empty_frame_def frame_rows_def)

lemma duplicated_length:
  "columns df = [] \<longrightarrow> index_len df = 0 \<Longrightarrow> length (duplicated df) = index_len df"
  by (simp add: duplicated_scan duplicated_seen_length frame_rows_def)

lemma duplicated_nth:
  "columns df = [] \<longrightarrow> index_len df = 0 \<Longrightarrow> i < index_len df \<Longrightarrow>
   duplicated df ! i \<longleftrightarrow> (\<exists>j<i. iloc_row df j = iloc_row df i)"
proof -
  assume c: "columns df = [] \<longrightarrow> index_len df = 0"
  assume i: "i < index_len df"
  have "\<And>j. j < i \<Longrightarrow> frame_rows df ! j = iloc_row df j"
    using i by (simp add: frame_rows_def)
  moreover have "frame_rows df ! i = iloc_row df i"
    using i by (simp add: frame_rows_def)
  moreover have "i < length (frame_rows df)"
    using i by (simp add: frame_rows_def)
  ultimately show ?thesis
    by (auto simp: duplicated_scan[OF c] duplicated_seen_nth)
qed

lemma sum_bools_nonzero: "sum_bools bmask = length (nonzero bmask)"
proof (induction bmask rule: rev_induct)
  case Nil
  then show ?case by (simp add: sum_bools_def nonzero_def)
next
  case (snoc b bs)
  have "filter (\<lambda>i. (bs @ [b]) ! i) [0..<length bs] = filter (\<lambda>i. bs ! i) [0..<length bs]"
    by (rule filter_cong) (auto simp: nth_append)
  with snoc show ?case
    by (simp add: sum_bools_def nonzero_def)
qed

lemma frame_rows_boolean_index:
  "frame_rows (boolean_index df bmask) = map (iloc_row df) (nonzero bmask)"
proof -
  have "map (iloc_row (boolean_index df bmask)) [0..<length (nonzero bmask)] =
        map (\<lambda>k. iloc_row df (nonzero bmask ! k)) [0..<length (nonzero bmask)]"
    by (rule map_cong) (auto simp: iloc_row_def boolean_index_def)
  also have "\<dots> = map (iloc_row df) (map (\<lambda>k. nonzero bmask ! k) [0..<length (nonzero bmask)])"
    by simp
  also have "\<dots> = map (iloc_row df) (nonzero bmask)"
    by (simp only: map_nth)
  finally show ?thesis
    by (simp add: frame_rows_def boolean_index_def)
qed

lemma column_names_boolean_index:
  "column_names (boolean_index df bmask) = column_names df"
  by (simp add: column_names_def boolean_index_def comp_def)

lemma to_dict_records_boolean_index:
  "to_dict_records (boolean_index df bmask) =
   map (\<lambda>i. dict_of (zip (column_names df) (iloc_row df i))) (nonzero bmask)"
  by (simp add: to_dict_records_def frame_rows_boolean_index column_names_boolean_index comp_def)

lemma nonzero_duplicated:
  assumes "columns df = [] \<longrightarrow> index_len df = 0"
  shows "nonzero (duplicated df) =
   filter (\<lambda>i. \<exists>j<i. iloc_row df j = iloc_row df i) [0..<index_len df]"
  unfolding nonzero_def duplicated_length[OF assms]
  by (rule filter_cong) (auto simp: duplicated_nth[OF assms])

lemma spec_is_duplicate_iff:
  "spec_is_duplicate df i \<longleftrightarrow> (\<exists>j<i. iloc_row df j = iloc_row df i)"
  by (auto simp: spec_is_duplicate_def list_ex_iff list_all_iff iloc_row_def)

lemma card_filter_upt: "card {i. i < n \<and> P i} = length (filter P [0..<n])"
proof -
  have "set (filter P [0..<n]) = {i. i < n \<and> P i}" by auto
  moreover have "distinct (filter P [0..<n])" by simp
  ultimately show ?thesis by (metis distinct_card)
qed

lemma nonzero_duplicated_spec:
  assumes "columns df = [] \<longrightarrow> index_len df = 0"
  shows "nonzero (duplicated df) = filter (spec_is_duplicate df) [0..<index_len df]"
  unfolding nonzero_duplicated[OF assms]
  by (rule filter_cong) (simp_all add: spec_is_duplicate_iff)

lemma panel_count_duplicates_tab:
  "panel_count (duplicates_tab df) = length (nonzero (duplicated df))"
  by (simp add: duplicates_tab_def Let_def sum_bools_nonzero)

lemma panel_rows_duplicates_tab:
  "panel_rows (duplicates_tab df) =
   map (\<lambda>i. dict_of (zip (column_names df) (iloc_row df i))) (nonzero (duplicated df))"
  by (simp add: duplicates_tab_def Let_def sum_bools_nonzero to_dict_records_boolean_index)

lemma scenario_rows:
  "iloc_row scenario 0 = [NumV 1, NumV 10]" "iloc_row scenario (Suc 0) = [NumV 2, NumV 20]"
  "iloc_row scenario 2 = [NumV 1, NumV 10]" "iloc_row scenario 3 = [NumV 100, NumV 5]"
  by (simp_all add: iloc_row_def scenario_def)

lemma scenario_flags:
  "spec_is_duplicate scenario 2" "\<not> spec_is_duplicate scenario 0"
  "\<not> spec_is_duplicate scenario (Suc 0)" "\<not> spec_is_duplicate scenario 3"
  by (simp_all add: spec_is_duplicate_def scenario_def upt_rec)

lemma scenario_flagged_positions: "filter (spec_is_duplicate scenario) [0..<4] = [2]"
proof -
  have "[0..<4] = [0, Suc 0, 2, 3]" by (simp add: upt_rec)
  then show ?thesis using scenario_flags by simp
qed

text \<open>
  Claim C3. For every dataset, \<^verbatim>\<open>df.duplicated()\<close> marks row \<open>i\<close> exactly when an
  earlier row has the same value (nulls included) in every column; the count shown by the
  duplicates tab is the number of marked rows; the rows it lists are the marked rows, as
  records, in their original order; and a row with no equal earlier row (the first
  occurrence of a pattern) is neither marked nor listed.
\<close>

theorem duplicate_report_flags_later_occurrences:
  assumes "frame_ok df"
  shows "length (duplicated df) = index_len df \<and>
   (\<forall>i<index_len df. duplicated df ! i = spec_is_duplicate df i) \<and>
   panel_count (duplicates_tab df) = card {i. i < index_len df \<and> spec_is_duplicate df i} \<and>
   panel_rows (duplicates_tab df) =
     map (\<lambda>i. dict_of (zip (column_names df) (iloc_row df i)))
       (filter (spec_is_duplicate df) [0..<index_len df]) \<and>
   (\<forall>i<index_len df. (\<forall>j<i. iloc_row df j \<noteq> iloc_row df i) \<longrightarrow>
      \<not> duplicated df ! i \<and> i \<notin> set (nonzero (duplicated df)))"
proof (intro conjI)
  from assms have c: "columns df = [] \<longrightarrow> index_len df = 0"
    by (simp add: frame_ok_def)
  show "length (duplicated df) = index_len df"
    using c by (rule duplicated_length)
  show "\<forall>i<index_len df. duplicated df ! i = spec_is_duplicate df i"
    by (simp add: duplicated_nth[OF c] spec_is_duplicate_iff)
  show "panel_count (duplicates_tab df) = card {i. i < index_len df \<and> spec_is_duplicate df i}"
    by (simp only: panel_count_duplicates_tab nonzero_duplicated_spec[OF c] card_filter_upt)
  show "panel_rows (duplicates_tab df) =
     map (\<lambda>i. dict_of (zip (column_names df) (iloc_row df i)))
       (filter (spec_is_duplicate df) [0..<index_len df])"
    by (simp only: panel_rows_duplicates_tab nonzero_duplicated_spec[OF c])
  show "\<forall>i<index_len df. (\<forall>j<i. iloc_row df j \<noteq> iloc_row df i) \<longrightarrow>
      \<not> duplicated df ! i \<and> i \<notin> set (nonzero (duplicated df))"
    by (auto simp: duplicated_nth[OF c] nonzero_duplicated[OF c])
qed

theorem duplicate_report_witness:
  "frame_ok scenario \<and>
   index_len scenario = 4 \<and> duplicated scenario ! 2 \<and> \<not> duplicated scenario ! 0 \<and>
   panel_count (duplicates_tab scenario) = 1 \<and>
   panel_rows (duplicates_tab scenario) = [[(''A'', NumV 1), (''B'', NumV 10)]]"
proof -
  have n: "index_len scenario = 4" by (simp add: scenario_def)
  have names: "column_names scenario = [''A'', ''B'']"
    by (simp add: column_names_def scenario_def)
  have d: "dict_of (zip [''A'', ''B''] [NumV 1, NumV 10]) = [(''A'', NumV 1), (''B'', NumV 10)]"
    by (simp add: dict_of_def)
  have c: "card {i. i < 4 \<and> spec_is_duplicate scenario i} = 1"
    by (simp only: card_filter_upt scenario_flagged_positions) simp
  have ok: "frame_ok scenario"
    by (simp add: frame_ok_def column_names_def scenario_def)
  from duplicate_report_flags_later_occurrences[OF ok]
  show ?thesis
    unfolding n scenario_flagged_positions names using ok scenario_flags c d scenario_rows by simp
qed

section \<open>Properties of the missing-value report\<close>

lemma sum_bools_map: "sum_bools (map P xs) = length (filter P xs)"
  by (induction xs) (simp_all add: sum_bools_def)

lemma missing_count_spec: "sum_bools (map isnull (cvals c)) = spec_missing_count c"
  by (simp add: sum_bools_map spec_missing_count_def isnull_def[abs_def])

lemma null_plus_non_null:
  "\<forall>c\<in>set cs. length (cvals c) = n \<Longrightarrow>
   sum_list (map spec_missing_count cs) +
   sum_list (map (\<lambda>c. length (filter (\<lambda>v. \<not> isnull v) (cvals c))) cs) = n * length cs"
proof (induction cs)
  case Nil
  then show ?case by simp
next
  case (Cons c cs)
  have "spec_missing_count c + length (filter (\<lambda>v. \<not> isnull v) (cvals c)) = length (cvals c)"
    unfolding spec_missing_count_def isnull_def by (rule sum_length_filter_compl)
  with Cons show ?case by simp
qed

text \<open>
  Claim C8. For every data frame (every column holding one value per row), the missing
  tab's table has one pair per column, numeric or not, in the frame's column order: the
  column's name and the number of its null entries. The counts add up to
  \<open>row_count * column_count - total_non_null_values\<close>.
\<close>

theorem missing_value_report_counts_nulls:
  assumes "frame_ok df"
  shows "length (missing_data df) = length (columns df) \<and>
    (\<forall>k<length (columns df).
       missing_data df ! k = (cname (columns df ! k), spec_missing_count (columns df ! k))) \<and>
    map fst (missing_data df) = column_names df \<and>
    sum_list (map snd (missing_data df)) + total_non_null_values df =
      index_len df * length (columns df) \<and>
    sum_list (map snd (missing_data df)) =
      index_len df * length (columns df) - total_non_null_values df"
proof -
  have md: "missing_data df = map (\<lambda>c. (cname c, spec_missing_count c)) (columns df)"
    by (simp add: missing_data_def missing_count_spec)
  have len: "\<forall>c\<in>set (columns df). length (cvals c) = index_len df"
    using assms by (simp add: frame_ok_def list_all_iff)
  have snd_md: "map snd (missing_data df) = map spec_missing_count (columns df)"
    by (simp add: md comp_def)
  have total: "sum_list (map snd (missing_data df)) + total_non_null_values df =
      index_len df * length (columns df)"
    unfolding snd_md total_non_null_values_def by (rule null_plus_non_null[OF len])
  show ?thesis
    using total by (simp add: md column_names_def comp_def)
qed

theorem missing_value_report_witness:
  "frame_ok one_null_column \<and>
   missing_data one_null_column ! 0 = (''C'', 1) \<and>
   total_non_null_values one_null_column = 3 \<and>
   sum_list (map snd (missing_data one_null_column)) = 4 * 1 - 3"
proof -
  have ok: "frame_ok one_null_column"
    by (simp add: one_null_column_def frame_ok_def column_names_def)
  have t: "total_non_null_values one_null_column = 3"
    by (simp add: one_null_column_def total_non_null_values_def isnull_def)
  have c: "spec_missing_count (columns one_null_column ! 0) = 1"
    by (simp add: one_null_column_def spec_missing_count_def)
  have k: "0 < length (columns one_null_column)" "cname (columns one_null_column ! 0) = ''C''"
    "index_len one_null_column = 4" "length (columns one_null_column) = 1"
    by (simp_all add: one_null_column_def)
  from missing_value_report_counts_nulls[OF ok] show ?thesis
    using ok t c k by simp
qed

section \<open>Properties of the column classification\<close>

lemma num_cols_eq: "num_cols df = map cname (filter (\<lambda>c. is_number_dtype (cdtype c)) (columns df))"
  by (simp add: num_cols_def column_names_def select_dtypes_include_number_def)

lemma cat_cols_eq: "cat_cols df = map cname (filter (\<lambda>c. \<not> is_number_dtype (cdtype c)) (columns df))"
  by (simp add: cat_cols_def column_names_def select_dtypes_exclude_number_def)






lemma in_cat_cols_iff:
  assumes "distinct (column_names df)" "c \<in> set (columns df)"
  shows "cname c \<in> set (cat_cols df) \<longleftrightarrow> \<not> is_number_dtype (cdtype c)"
proof -
  have inj: "inj_on cname (set (columns df))"
    using assms(1) by (simp add: column_names_def distinct_map)
  show ?thesis
    using inj assms(2) unfolding cat_cols_eq by (auto dest: inj_onD)
qed


lemma read_csv_dtype_numeric:
  "read_csv_dtype (cdtype c) (cvals c) \<Longrightarrow>
   is_number_dtype (cdtype c) \<longleftrightarrow> cvals c \<noteq> [] \<and> spec_is_numeric c"
proof (cases "cdtype c")
  case Int64
  assume "read_csv_dtype (cdtype c) (cvals c)"
  with Int64 have "cvals c \<noteq> []" "list_all is_integral_cell (cvals c)" by simp_all
  moreover have "\<And>v. is_integral_cell v \<Longrightarrow> is_num_cell v"
    by (simp add: is_integral_cell_def is_num_cell_def split: cell.splits)
  ultimately show ?thesis
    using Int64 by (auto simp: is_number_dtype_def spec_is_numeric_def list_all_iff)
next
  case Float64
  assume "read_csv_dtype (cdtype c) (cvals c)"
  with Float64 show ?thesis
    by (auto simp: is_number_dtype_def spec_is_numeric_def list_all_iff)
next
  case BoolT
  assume "read_csv_dtype (cdtype c) (cvals c)"
  with BoolT have ne: "cvals c \<noteq> []" and b: "list_all is_bool_cell (cvals c)" by simp_all
  from ne obtain v where v: "v \<in> set (cvals c)" by (cases "cvals c") auto
  with b have "is_bool_cell v" by (simp add: list_all_iff)
  then have "\<not> (isnull v \<or> is_num_cell v)"
    by (simp add: is_bool_cell_def isnull_def is_num_cell_def split: cell.splits)
  with v have "\<not> spec_is_numeric c" by (auto simp: spec_is_numeric_def list_all_iff)
  with BoolT show ?thesis by (simp add: is_number_dtype_def)
next
  case Object
  assume "read_csv_dtype (cdtype c) (cvals c)"
  with Object have "cvals c = [] \<or> \<not> spec_is_numeric c"
    by (auto simp: spec_is_numeric_def list_all_iff list_ex_iff)
  with Object show ?thesis by (auto simp: is_number_dtype_def)
qed




section \<open>Properties of the stored records\<close>


















section \<open>Properties of the outlier detection\<close>

lemma lerp_linear: "lerp a b t = a + (b - a) * t"
  by (simp add: lerp_def algebra_simps)

lemma percentile_linear_spec:
  assumes "vs \<noteq> []" "0 \<le> p" "p \<le> 1"
  shows "percentile_linear p vs = spec_percentile p vs"
proof -
  define n where "n = length (sort vs)"
  define h where "h = p * of_nat (n - 1)"
  have n: "0 < n" using assms(1) by (simp add: n_def)
  have h0: "0 \<le> h" using assms(2) by (simp add: h_def)
  have hn: "h \<le> of_nat (n - 1)"
    using assms(2,3) by (simp add: h_def mult_left_le_one_le)
  have fl: "of_nat (nat \<lfloor>h\<rfloor>) = (of_int \<lfloor>h\<rfloor> :: rat)" using h0 by simp
  show ?thesis
  proof (cases "h = of_int \<lfloor>h\<rfloor>")
    case True
    then have "\<lceil>h\<rceil> = \<lfloor>h\<rfloor>" by (metis ceiling_of_int)
    moreover have "h - of_nat (nat \<lfloor>h\<rfloor>) = 0" using True fl by simp
    ultimately show ?thesis
      unfolding percentile_linear_def spec_percentile_def Let_def lerp_linear
        n_def[symmetric] h_def[symmetric]
      by simp
  next
    case False
    then have c: "\<lceil>h\<rceil> = \<lfloor>h\<rfloor> + 1" by (simp add: ceiling_altdef)
    have "h < of_nat (n - 1)" using hn False
      by (metis floor_of_nat of_int_of_nat_eq order_le_less)
    then have "\<lfloor>h\<rfloor> < int (n - 1)" by (simp add: floor_less_iff)
    then have lt: "nat \<lfloor>h\<rfloor> + 1 \<le> n - 1" using h0 by linarith
    have hi: "nat \<lceil>h\<rceil> = nat \<lfloor>h\<rfloor> + 1" using c h0 by (simp add: nat_add_distrib)
    show ?thesis
      unfolding percentile_linear_def spec_percentile_def Let_def lerp_linear
        n_def[symmetric] h_def[symmetric] hi
      using lt by (simp add: min_absorb1 algebra_simps)
  qed
qed

lemma numbers_Cons:
  "numbers (NumV q # vs) = q # numbers vs" "numbers (Null # vs) = numbers vs"
  "numbers (StrV s # vs) = numbers vs" "numbers (BoolV b # vs) = numbers vs"
  "numbers [] = []"
  by (simp_all add: numbers_def map_filter_simps)

lemma numbers_present: "numbers (filter (\<lambda>v. \<not> isnull v) vs) = numbers vs"
proof (induction vs)
  case Nil
  then show ?case by simp
next
  case (Cons v vs)
  then show ?case by (cases v) (simp_all add: numbers_Cons isnull_def)
qed

lemma spec_values_numbers: "spec_values c = numbers (cvals c)"
  using numbers_present[of "cvals c"] by (simp add: spec_values_def isnull_def)

lemma numeric_present:
  "list_all (\<lambda>v. isnull v \<or> is_num_cell v) vs \<Longrightarrow>
   list_all is_num_cell (filter (\<lambda>v. \<not> isnull v) vs) \<and>
   (filter (\<lambda>v. \<not> isnull v) vs = [] \<longleftrightarrow> numbers vs = [])"
proof (induction vs)
  case Nil
  then show ?case by (simp add: numbers_Cons)
next
  case (Cons v vs)
  then show ?case
    by (cases v) (simp_all add: numbers_Cons isnull_def is_num_cell_def)
qed

lemma quantile_numeric:
  assumes "spec_is_numeric c"
  shows "quantile (cvals c) q =
         Inr (if spec_values c = [] then None else Some (percentile_linear q (spec_values c)))"
  using numeric_present[OF assms[unfolded spec_is_numeric_def]]
  by (simp add: quantile_def Let_def numbers_present spec_values_numbers)

lemma no_str_in_numeric: "spec_is_numeric c \<Longrightarrow> \<not> list_ex is_str_cell (cvals c)"
  by (auto simp: spec_is_numeric_def list_all_iff list_ex_iff is_str_cell_def isnull_def
      is_num_cell_def split: cell.splits)

lemma series_cmp_numeric:
  "spec_is_numeric c \<Longrightarrow> series_cmp rel (cvals c) (Some b) = Inr (map (cell_cmp rel b) (cvals c))"
  by (simp add: series_cmp_def no_str_in_numeric)

lemma series_cmp_nan: "series_cmp rel vs None = Inr (map (\<lambda>v. False) vs)"
  by (simp add: series_cmp_def)

lemma map2_or_map: "map2 (\<or>) (map f xs) (map g xs) = map (\<lambda>x. f x \<or> g x) xs"
  by (simp add: zip_map_map zip_same_conv_map comp_def)




lemma get_column_found:
  assumes "distinct (column_names df)" "c \<in> set (columns df)"
  shows "get_column df (cname c) = Inr c"
proof -
  have inj: "inj_on cname (set (columns df))"
    using assms(1) by (simp add: column_names_def distinct_map)
  obtain d where d: "find (\<lambda>x. cname x = cname c) (columns df) = Some d"
    using assms(2) by (cases "find (\<lambda>x. cname x = cname c) (columns df)") (auto simp: find_None_iff)
  then have "d \<in> set (columns df)" "cname d = cname c"
    by (auto simp: find_Some_iff)
  with inj assms(2) have "d = c" by (auto dest: inj_onD)
  with d show ?thesis by (simp add: get_column_def)
qed

lemma get_column_missing: "k \<notin> set (column_names df) \<Longrightarrow> get_column df k = Inl KeyError"
proof -
  assume "k \<notin> set (column_names df)"
  then have "find (\<lambda>c. cname c = k) (columns df) = None"
    by (auto simp: find_None_iff column_names_def)
  then show ?thesis by (simp add: get_column_def)
qed

lemma numeric_column_of_name:
  assumes "parsed_frame df" "col \<in> set (num_cols df)"
  obtains c where "c \<in> set (columns df)" "cname c = col" "spec_is_numeric c"
    "get_column df col = Inr c" "length (cvals c) = index_len df"
proof -
  from assms(1) have d: "distinct (column_names df)"
    and len: "\<forall>c\<in>set (columns df). length (cvals c) = index_len df"
    and dt: "\<forall>c\<in>set (columns df). read_csv_dtype (cdtype c) (cvals c)"
    by (simp_all add: parsed_frame_def frame_ok_def list_all_iff)
  from assms(2) obtain c where c: "c \<in> set (columns df)" "cname c = col"
    "is_number_dtype (cdtype c)"
    by (auto simp: num_cols_def column_names_def select_dtypes_include_number_def)
  have "spec_is_numeric c" using read_csv_dtype_numeric[of c] dt c by simp
  moreover have "get_column df col = Inr c" using get_column_found[OF d c(1)] c(2) by simp
  ultimately show ?thesis using that c len by blast
qed

lemma iqr_outliers_nan:
  assumes "get_column df col = Inr c" "spec_is_numeric c" "spec_values c = []"
  shows "iqr_outliers df col =
         Inr \<lparr>Q1 = None, Q3 = None, IQR = None, lower_bound = None, upper_bound = None,
              outliers = boolean_index df (map (\<lambda>v. False) (cvals c))\<rparr>"
  using assms
  by (simp add: iqr_outliers_def quantile_numeric series_cmp_nan map2_or_map)

lemma iqr_outliers_numeric:
  assumes "get_column df col = Inr c" "spec_is_numeric c" "spec_values c \<noteq> []"
  shows "iqr_outliers df col =
         (let q1 = spec_percentile (1 / 4) (spec_values c);
              q3 = spec_percentile (3 / 4) (spec_values c);
              iqr = q3 - q1;
              lower = q1 - 3 / 2 * iqr;
              upper = q3 + 3 / 2 * iqr
          in Inr \<lparr>Q1 = Some q1, Q3 = Some q3, IQR = Some iqr, lower_bound = Some lower,
                  upper_bound = Some upper,
                  outliers = boolean_index df
                    (map (\<lambda>v. cell_cmp (<) lower v \<or> cell_cmp (>) upper v) (cvals c))\<rparr>)"
  using assms
  by (simp add: iqr_outliers_def quantile_numeric series_cmp_numeric map2_or_map
      percentile_linear_spec Let_def)


lemma parsed_frame_scenario: "parsed_frame scenario"
  by (simp add: parsed_frame_def frame_ok_def column_names_def scenario_def is_integral_cell_def)

lemma num_cols_scenario: "num_cols scenario = [''A'', ''B'']"
  by (simp add: num_cols_eq scenario_def is_number_dtype_def)




section \<open>The scenario\<close>

text \<open>
  Claim C2, as amended. On the table with columns \<open>A\<close>, \<open>B\<close> and rows (1,10), (2,20),
  (1,10), (100,5): the numeric columns are \<open>A\<close> and \<open>B\<close>; the duplicate count is 1 and the
  one duplicate row is the third row, (1,10); for column \<open>A\<close> the quartiles are
  \<open>Q1 = 1\<close> and \<open>Q3 = 26.5\<close>, so \<open>IQR = 25.5\<close>, \<open>lower = -37.25\<close>,
  \<open>upper = 64.75\<close>, and the row holding 100 is the only outlier.
\<close>

theorem scenario_reports:
  "num_cols scenario = [''A'', ''B''] \<and> cat_cols scenario = [] \<and>
   nonzero (duplicated scenario) = [2] \<and>
   duplicates_tab scenario = DuplicatePanel 1 (Some [[(''A'', NumV 1), (''B'', NumV 10)]]) \<and>
   spec_percentile (1 / 4) [1, 2, 1, 100] = 1 \<and>
   spec_percentile (3 / 4) [1, 2, 1, 100] = 53 / 2 \<and>
   iqr_outliers scenario ''A'' =
     Inr \<lparr>Q1 = Some 1, Q3 = Some (53 / 2), IQR = Some (51 / 2),
          lower_bound = Some (- (149 / 4)), upper_bound = Some (259 / 4),
          outliers =
            \<lparr>index_len = 1,
             columns =
               [\<lparr>cname = ''A'', cdtype = Int64, cvals = [NumV 100]\<rparr>,
                \<lparr>cname = ''B'', cdtype = Int64, cvals = [NumV 5]\<rparr>]\<rparr>\<rparr>"
proof (intro conjI)
  show "num_cols scenario = [''A'', ''B'']" by (rule num_cols_scenario)
  show "cat_cols scenario = []" by (simp add: cat_cols_eq scenario_def is_number_dtype_def)
  show "nonzero (duplicated scenario) = [2]" by code_simp
  show "duplicates_tab scenario = DuplicatePanel 1 (Some [[(''A'', NumV 1), (''B'', NumV 10)]])"
    by code_simp
  show "spec_percentile (1 / 4) [1, 2, 1, 100] = 1" by code_simp
  show "spec_percentile (3 / 4) [1, 2, 1, 100] = 53 / 2" by code_simp
  show "iqr_outliers scenario ''A'' =
     Inr \<lparr>Q1 = Some 1, Q3 = Some (53 / 2), IQR = Some (51 / 2),
          lower_bound = Some (- (149 / 4)), upper_bound = Some (259 / 4),
          outliers =
            \<lparr>index_len = 1,
             columns =
               [\<lparr>cname = ''A'', cdtype = Int64, cvals = [NumV 100]\<rparr>,
                \<lparr>cname = ''B'', cdtype = Int64, cvals = [NumV 5]\<rparr>]\<rparr>\<rparr>"
    by code_simp
qed

text \<open>
  Claim C2 as stated fails in one number: the third quartile of column \<open>A\<close> is 26.5, by
  the code and by the specification's own rank-interpolation formula, and not 2.
\<close>

theorem scenario_third_quartile_counterexample:
  "map_sum id Q3 (iqr_outliers scenario ''A'') = Inr (Some (53 / 2)) \<and>
   spec_percentile (3 / 4) [1, 2, 1, 100] = 53 / 2 \<and>
   map_sum id Q3 (iqr_outliers scenario ''A'') \<noteq> Inr (Some 2) \<and>
   spec_percentile (3 / 4) [1, 2, 1, 100] \<noteq> 2"
  by code_simp

section \<open>Column names the outlier detection cannot use\<close>

lemma find_column_update:
  "find (\<lambda>c. cname c = k) (map (\<lambda>c. c\<lparr>cvals := f c\<rparr>) cs) =
   map_option (\<lambda>c. c\<lparr>cvals := f c\<rparr>) (find (\<lambda>c. cname c = k) cs)"
  by (induction cs) simp_all

lemma get_column_boolean_index:
  "get_column df k = Inr c \<Longrightarrow>
   get_column (boolean_index df bmask) k =
     Inr (c\<lparr>cvals := map (\<lambda>i. cvals c ! i) (nonzero bmask)\<rparr>)"
  by (auto simp: get_column_def boolean_index_def find_column_update split: option.splits)

lemma iqr_outliers_returns:
  assumes "get_column df col = Inr c" "spec_is_numeric c"
  shows "\<exists>r bmask. iqr_outliers df col = Inr r \<and> outliers r = boolean_index df bmask"
proof (cases "spec_values c = []")
  case True
  from iqr_outliers_nan[OF assms True] show ?thesis by auto
next
  case False
  from iqr_outliers_numeric[OF assms False] show ?thesis by (auto simp: Let_def)
qed

lemma quantile_of_strings:
  assumes "list_ex is_str_cell vs"
  shows "quantile vs q = Inl TypeError"
proof -
  from assms obtain v where v: "v \<in> set vs" "is_str_cell v" by (auto simp: list_ex_iff)
  then have nn: "\<not> isnull v" and nnum: "\<not> is_num_cell v"
    by (auto simp: is_str_cell_def isnull_def is_num_cell_def split: cell.splits)
  from v nn have m: "v \<in> set (filter (\<lambda>v. \<not> isnull v) vs)" by simp
  then have "filter (\<lambda>v. \<not> isnull v) vs \<noteq> []" by (auto simp: filter_empty_conv)
  moreover from m nnum have "\<not> list_all is_num_cell (filter (\<lambda>v. \<not> isnull v) vs)"
    by (auto simp: list_all_iff)
  ultimately show ?thesis by (simp add: quantile_def Let_def)
qed

text \<open>
  Claim C5, as amended. \<^verbatim>\<open>update_boxplot\<close> of \<^verbatim>\<open>app2.py\<close> has no check of the column name
  and no \<open>InvalidColumn\<close> value. For every parsed data frame: for a column of the numeric
  set it returns the box figure with the outlier trace and no failure; for a name that is
  not a column of the frame the lookup \<^verbatim>\<open>df[column]\<close> raises \<^verbatim>\<open>KeyError\<close>; for a column
  that holds a string the quantile computation raises \<^verbatim>\<open>TypeError\<close>.
\<close>

theorem update_boxplot_column_errors:
  assumes "parse_contents c = Inr df" "parsed_frame df"
  shows "(col \<in> set (num_cols df) \<longrightarrow>
            (\<exists>y out. update_boxplot_app2 parse_contents (Some col) (Some c) =
               Inr (BoxFigure col y (Some out), True))) \<and>
         (col \<notin> set (column_names df) \<longrightarrow>
            update_boxplot_app2 parse_contents (Some col) (Some c) = Inl KeyError) \<and>
         (\<forall>k\<in>set (columns df). list_ex is_str_cell (cvals k) \<longrightarrow>
            update_boxplot_app2 parse_contents (Some (cname k)) (Some c) = Inl TypeError)"
proof (intro conjI impI ballI)
  assume "col \<in> set (num_cols df)"
  with assms(2) obtain k where k: "spec_is_numeric k" "get_column df col = Inr k"
    by (rule numeric_column_of_name)
  from iqr_outliers_returns[OF k(2,1)] obtain r bmask
    where r: "iqr_outliers df col = Inr r" "outliers r = boolean_index df bmask" by blast
  show "\<exists>y out. update_boxplot_app2 parse_contents (Some col) (Some c) =
               Inr (BoxFigure col y (Some out), True)"
    using assms(1) k(2) r get_column_boolean_index[OF k(2), of bmask]
    by (simp add: update_boxplot_app2_def)
next
  assume "col \<notin> set (column_names df)"
  then have "iqr_outliers df col = Inl KeyError"
    by (simp add: iqr_outliers_def get_column_missing)
  then show "update_boxplot_app2 parse_contents (Some col) (Some c) = Inl KeyError"
    using assms(1) by (simp add: update_boxplot_app2_def)
next
  fix k assume k: "k \<in> set (columns df)" "list_ex is_str_cell (cvals k)"
  from assms(2) have "distinct (column_names df)" by (simp add: parsed_frame_def frame_ok_def)
  then have "get_column df (cname k) = Inr k" using k(1) by (rule get_column_found)
  then have "iqr_outliers df (cname k) = Inl TypeError"
    by (simp add: iqr_outliers_def quantile_of_strings[OF k(2)])
  then show "update_boxplot_app2 parse_contents (Some (cname k)) (Some c) = Inl TypeError"
    using assms(1) by (simp add: update_boxplot_app2_def)
qed

lemma parsed_frame_text_frame: "parsed_frame text_frame"
  by (simp add: parsed_frame_def frame_ok_def column_names_def text_frame_def
      is_num_cell_def isnull_def)

theorem update_boxplot_column_errors_witness:
  "upload_of scenario ''csv'' = Inr scenario \<and> parsed_frame scenario \<and>
   ''A'' \<in> set (num_cols scenario) \<and> ''Z'' \<notin> set (column_names scenario) \<and>
   update_boxplot_app2 (upload_of scenario) (Some ''Z'') (Some ''csv'') = Inl KeyError \<and>
   update_boxplot_app2 (upload_of scenario) (Some ''A'') (Some ''csv'') =
     Inr (BoxFigure ''A'' [NumV 1, NumV 2, NumV 1, NumV 100] (Some [NumV 100]), True) \<and>
   upload_of text_frame ''csv'' = Inr text_frame \<and> parsed_frame text_frame \<and>
   list_ex is_str_cell (cvals (hd (columns text_frame))) \<and>
   update_boxplot_app2 (upload_of text_frame) (Some (cname (hd (columns text_frame))))
     (Some ''csv'') = Inl TypeError"
proof -
  have p: "upload_of scenario ''csv'' = Inr scenario" by (simp add: upload_of_def)
  have a: "''A'' \<in> set (num_cols scenario)" by (simp add: num_cols_scenario)
  have z: "''Z'' \<notin> set (column_names scenario)" by (simp add: column_names_def scenario_def)
  have pt: "upload_of text_frame ''csv'' = Inr text_frame" by (simp add: upload_of_def)
  have s: "hd (columns text_frame) \<in> set (columns text_frame)"
    "list_ex is_str_cell (cvals (hd (columns text_frame)))"
    by (simp_all add: text_frame_def is_str_cell_def)
  have fig: "update_boxplot_app2 (upload_of scenario) (Some ''A'') (Some ''csv'') =
     Inr (BoxFigure ''A'' [NumV 1, NumV 2, NumV 1, NumV 100] (Some [NumV 100]), True)"
    by code_simp
  from update_boxplot_column_errors[of "upload_of scenario" "''csv''" scenario "''Z''",
      OF p parsed_frame_scenario]
    update_boxplot_column_errors[of "upload_of text_frame" "''csv''" text_frame "''Z''",
      OF pt parsed_frame_text_frame]
  show ?thesis
    using p a z pt s fig parsed_frame_scenario parsed_frame_text_frame by simp
qed

text \<open>
  Claim C5 as stated fails: for the name \<open>Z\<close>, which is no column of the scenario table,
  and for the text column \<open>name\<close>, \<^verbatim>\<open>update_boxplot\<close> of \<^verbatim>\<open>app2.py\<close> raises instead of
  returning a failure value; \<^verbatim>\<open>update_boxplot\<close> of \<^verbatim>\<open>app1.py\<close> raises for \<open>Z\<close> and returns
  a figure for the text column.
\<close>

theorem update_boxplot_invalid_column_counterexample:
  "''Z'' \<notin> set (num_cols scenario) \<and>
   update_boxplot_app2 (upload_of scenario) (Some ''Z'') (Some ''csv'') = Inl KeyError \<and>
   ''name'' \<notin> set (num_cols text_frame) \<and>
   update_boxplot_app2 (upload_of text_frame) (Some ''name'') (Some ''csv'') = Inl TypeError \<and>
   update_boxplot_app1 (upload_of scenario) (Some ''Z'') (Some ''csv'') = Inl ValueError \<and>
   update_boxplot_app1 (upload_of text_frame) (Some ''name'') (Some ''csv'') =
     Inr (BoxFigure ''name'' [StrV ''x'', StrV ''y''] None)"
  by code_simp

section \<open>Tabs on a frame without numeric columns or without rows\<close>

lemma render_tab_app_guard:
  "num_cols (DataFrame d) = [] \<Longrightarrow>
   render_tab_app corr ''correlation'' (Some d) = Inr NoNumericWarning"
  by (simp add: render_tab_app_def Let_def)

text \<open>
  Claim C4. On a table whose only column is text, the numeric column set is empty.
  \<^verbatim>\<open>render_tab\<close> of \<^verbatim>\<open>app.py\<close> returns the warning "No numerical columns available for
  correlation." instead of a chart; \<^verbatim>\<open>render_tab\<close> of \<^verbatim>\<open>app1.py\<close> and of \<^verbatim>\<open>app2.py\<close> have
  no such test: they compute the correlation of the empty selection and hand it to the
  heat map.
\<close>

theorem correlation_without_guard:
  "num_cols text_frame = [] \<and>
   render_tab_app1 (upload_of text_frame) corr ''correlation'' (Some ''csv'') =
     Inr (Heatmap (corr \<lparr>index_len = 2, columns = []\<rparr>), [''name'']) \<and>
   render_tab_app2 (upload_of text_frame) corr ''correlation'' (Some ''csv'') =
     Inr (Heatmap (corr \<lparr>index_len = 2, columns = []\<rparr>), [], False) \<and>
   render_tab_app corr ''correlation'' (Some (to_dict_records text_frame)) = Inr NoNumericWarning"
proof -
  have n: "num_cols text_frame = []"
    by (simp add: num_cols_eq text_frame_def is_number_dtype_def)
  have g: "getitem_list text_frame [] = Inr \<lparr>index_len = 2, columns = []\<rparr>"
    by (simp add: getitem_list_def text_frame_def)
  have k: "column_names text_frame = [''name'']"
    by (simp add: column_names_def text_frame_def)
  have d: "num_cols (DataFrame (to_dict_records text_frame)) = []"
    by code_simp
  show ?thesis
    using n g k render_tab_app_guard[OF d]
    by (simp add: render_tab_app1_def render_tab_app2_def upload_of_def Let_def
        correlation_heatmap_def)
qed

text \<open>
  Claim C9. For an upload with a header and no data row, \<^verbatim>\<open>process_file\<close> of \<^verbatim>\<open>app.py\<close>
  stores the empty list of records, and the boxplot tab of \<^verbatim>\<open>render_tab\<close> then raises
  \<^verbatim>\<open>IndexError\<close> at \<^verbatim>\<open>num_cols[0]\<close>.
\<close>

theorem boxplots_tab_zero_rows_raises:
  "index_len header_only = 0 \<and>
   process_file (upload_of header_only) (Some ''csv'') = Inr (Some []) \<and>
   render_tab_app corr ''boxplots'' (Some []) = Inl IndexError"
  by (simp add: header_only_def process_file_def upload_of_def to_dict_records_def
      frame_rows_def render_tab_app_def DataFrame_def record_keys_def num_cols_eq Let_def)

end
